theory Spec2Isabelle
  imports Main "HOL-Library.Char_ord" "HOL-Library.List_Lexorder"
begin

section \<open>The Oral Health Tips page (src/app/oral-health-tips/page.tsx)\<close>

text \<open>
  The page module has three functions: the loader \<open>getOralHealthTipsData\<close>, the
  metadata builder \<open>generateMetadata\<close> and the page component
  \<open>OralHealthTipsPage\<close>. All three read the database through the Prisma client and
  are otherwise pure, so each becomes a HOL function of the client. A rejected query and
  the \<open>notFound()\<close> signal are values of the type \<open>error\<close>, as is the
  \<open>TypeError\<close> of a property read on \<open>null\<close>; \<open>null\<close> is \<open>None\<close>.

  Strings are byte lists (UTF-8); a \<open>Date\<close> is its number of milliseconds since the
  epoch.
\<close>

subsection \<open>Rows of the database\<close>

text \<open>
  Only the columns the module reads are modelled. The columns the source guards with
  \<open>??\<close>, \<open>&&\<close> or \<open>? :\<close> are nullable; the relations \<open>article.category\<close> and
  \<open>article.author\<close> are foreign keys.
\<close>

type_synonym ident = string
type_synonym datetime = int

record category_row =
  category_id :: ident
  category_name :: string
  category_slug :: string
  category_description :: "string option"
  category_seoTitle :: "string option"
  category_seoDescription :: "string option"

record author_row =
  author_id :: ident
  author_name :: string
  author_slug :: string

record article_row =
  article_id :: ident
  article_slug :: string
  article_title :: string
  article_excerpt :: "string option"
  article_featuredImage :: "string option"
  article_status :: string
  article_publishedAt :: "datetime option"
  article_createdAt :: datetime
  article_categoryId :: ident
  article_authorId :: ident

subsection \<open>The Prisma client\<close>

datatype query = CategoryFindUnique | ArticleFindMany | CategoryFindMany

text \<open>What a call can end in instead of a value: a rejected query, the signal of
  \<open>notFound()\<close>, and the \<open>TypeError\<close> of reading a property of \<open>null\<close>.\<close>

datatype error = QueryRejected | NotFound | TypeError

text \<open>
  The client holds the three tables and what the module cannot see of the database:
  where it places \<open>NULL\<close> when sorting (\<open>nullsLargest\<close>: above every value, as
  PostgreSQL does, or below every value, as MySQL and SQLite do), the collation that
  compares names, and which of the three queries the connection rejects.
\<close>

record prisma =
  category_table :: "category_row list"
  author_table :: "author_row list"
  article_table :: "article_row list"
  nullsLargest :: bool
  collation :: "string \<Rightarrow> string \<Rightarrow> bool"
  rejects :: "query \<Rightarrow> bool"

definition CATEGORY_SLUG :: string where
  "CATEGORY_SLUG = ''oral-health-tips''"

definition PUBLISHED :: string where
  "PUBLISHED = ''PUBLISHED''"

text \<open>\<open>orderBy\<close>: the rows in the order of the comparison, rows that compare equal in
  table order (a stable insertion sort).\<close>

fun insert_by :: "('a \<Rightarrow> 'a \<Rightarrow> bool) \<Rightarrow> 'a \<Rightarrow> 'a list \<Rightarrow> 'a list" where
  "insert_by le x [] = [x]"
| "insert_by le x (y # ys) = (if le x y then x # y # ys else y # insert_by le x ys)"

definition orderBy :: "('a \<Rightarrow> 'a \<Rightarrow> bool) \<Rightarrow> 'a list \<Rightarrow> 'a list" where
  "orderBy le xs = foldr (insert_by le) xs []"

text \<open>\<open>{ publishedAt: 'desc' }\<close> on a nullable column: \<open>desc_nullable nl x y\<close> holds
  when a row with \<open>x\<close> may stand before a row with \<open>y\<close>.\<close>

fun desc_nullable :: "bool \<Rightarrow> datetime option \<Rightarrow> datetime option \<Rightarrow> bool" where
  "desc_nullable nl None None = True"
| "desc_nullable nl None (Some y) = nl"
| "desc_nullable nl (Some x) None = (\<not> nl)"
| "desc_nullable nl (Some x) (Some y) = (y \<le> x)"

subsubsection \<open>Query (a): \<open>prisma.category.findUnique\<close>\<close>

definition category_findUnique :: "prisma \<Rightarrow> category_row option" where
  "category_findUnique db = find (\<lambda>c. category_slug c = CATEGORY_SLUG) (category_table db)"

subsubsection \<open>Query (b): \<open>prisma.article.findMany\<close>\<close>

record name_slug =
  ref_name :: string
  ref_slug :: string

text \<open>An article with its \<open>include\<close>d author and category. The author is \<open>null\<close>
  when no author row has the article's \<open>authorId\<close>: \<open>include\<close> adds to a row and
  never removes one.\<close>

record article_included =
  row :: article_row
  included_author :: "name_slug option"
  included_category :: name_slug

definition category_of :: "prisma \<Rightarrow> article_row \<Rightarrow> category_row option" where
  "category_of db a = find (\<lambda>c. category_id c = article_categoryId a) (category_table db)"

definition author_of :: "prisma \<Rightarrow> article_row \<Rightarrow> author_row option" where
  "author_of db a = find (\<lambda>u. author_id u = article_authorId a) (author_table db)"

text \<open>\<open>where: { status: 'PUBLISHED', category: { slug: CATEGORY_SLUG } }\<close> with the
  two includes. The \<open>where\<close> keeps an article when its status is \<open>PUBLISHED\<close> and it
  has a category with the slug; it has no condition on the author, so an article whose
  \<open>authorId\<close> matches no author row stays, with the author \<open>null\<close>.\<close>

definition article_where_include :: "prisma \<Rightarrow> article_row \<Rightarrow> article_included option" where
  "article_where_include db a =
     (if article_status a = PUBLISHED then
        (case category_of db a of
           None \<Rightarrow> None
         | Some c \<Rightarrow>
             if category_slug c = CATEGORY_SLUG then
               Some \<lparr> row = a,
                      included_author =
                        map_option (\<lambda>u. \<lparr> ref_name = author_name u, ref_slug = author_slug u \<rparr>)
                          (author_of db a),
                      included_category =
                        \<lparr> ref_name = category_name c, ref_slug = category_slug c \<rparr> \<rparr>
             else None)
      else None)"

text \<open>\<open>orderBy: [{ publishedAt: 'desc' }, { createdAt: 'desc' }]\<close>.\<close>

definition article_order :: "bool \<Rightarrow> article_included \<Rightarrow> article_included \<Rightarrow> bool" where
  "article_order nl a b =
     (if article_publishedAt (row a) = article_publishedAt (row b)
      then article_createdAt (row b) \<le> article_createdAt (row a)
      else desc_nullable nl (article_publishedAt (row a)) (article_publishedAt (row b)))"

definition article_findMany :: "prisma \<Rightarrow> article_included list" where
  "article_findMany db =
     orderBy (article_order (nullsLargest db))
       (List.map_filter (article_where_include db) (article_table db))"

subsubsection \<open>Query (c): \<open>prisma.category.findMany\<close>\<close>

record sibling_row =
  sibling_name :: string
  sibling_slug :: string
  sibling_articles :: "ident list"

text \<open>The nested \<open>articles: { where: { status: 'PUBLISHED' }, select: { id: true } }\<close>.\<close>

definition published_ids :: "prisma \<Rightarrow> category_row \<Rightarrow> ident list" where
  "published_ids db c =
     map article_id
       (filter (\<lambda>a. article_categoryId a = category_id c \<and> article_status a = PUBLISHED)
          (article_table db))"

definition sibling_where :: "prisma \<Rightarrow> category_row \<Rightarrow> bool" where
  "sibling_where db c =
     (category_slug c \<noteq> CATEGORY_SLUG \<and>
      list_ex (\<lambda>a. article_categoryId a = category_id c \<and> article_status a = PUBLISHED)
        (article_table db))"

definition sibling_select :: "prisma \<Rightarrow> category_row \<Rightarrow> sibling_row" where
  "sibling_select db c =
     \<lparr> sibling_name = category_name c, sibling_slug = category_slug c,
       sibling_articles = published_ids db c \<rparr>"

definition category_findMany :: "prisma \<Rightarrow> sibling_row list" where
  "category_findMany db =
     orderBy (\<lambda>x y. collation db (sibling_name x) (sibling_name y))
       (map (sibling_select db) (filter (sibling_where db) (category_table db)))"

subsection \<open>The loader \<open>getOralHealthTipsData\<close>\<close>

text \<open>A query's promise: rejected, or resolved with the rows.\<close>

definition run :: "prisma \<Rightarrow> query \<Rightarrow> 'a \<Rightarrow> error + 'a" where
  "run db q r = (if rejects db q then Inl QueryRejected else Inr r)"

text \<open>\<open>await Promise.all([p, q, r])\<close>: the three values once all are resolved, a
  rejection when one is rejected.\<close>

fun promise_all :: "error + 'a \<Rightarrow> error + 'b \<Rightarrow> error + 'c \<Rightarrow> error + ('a \<times> 'b \<times> 'c)" where
  "promise_all (Inr a) (Inr b) (Inr c) = Inr (a, b, c)"
| "promise_all _ _ _ = Inl QueryRejected"

record summary =
  summary_name :: string
  summary_slug :: string
  summary_count :: nat

record page_data =
  data_category :: category_row
  data_articles :: "article_included list"
  data_siblingCategories :: "summary list"

definition getOralHealthTipsData :: "prisma \<Rightarrow> error + page_data option" where
  "getOralHealthTipsData db =
     (case promise_all
             (run db CategoryFindUnique (category_findUnique db))
             (run db ArticleFindMany (article_findMany db))
             (run db CategoryFindMany (category_findMany db)) of
        Inl e \<Rightarrow> Inl e
      | Inr (category, articles, siblingCategories) \<Rightarrow>
          (case category of
             None \<Rightarrow> Inr None
           | Some c \<Rightarrow>
               Inr (Some \<lparr> data_category = c,
                           data_articles = articles,
                           data_siblingCategories =
                             map (\<lambda>item. \<lparr> summary_name = sibling_name item,
                                           summary_slug = sibling_slug item,
                                           summary_count = length (sibling_articles item) \<rparr>)
                               siblingCategories \<rparr>)))"

subsection \<open>The metadata builder \<open>generateMetadata\<close>\<close>

record open_graph =
  og_title :: string
  og_description :: string

record metadata =
  meta_title :: string
  meta_description :: string
  meta_openGraph :: "open_graph option"

text \<open>The operator \<open>??\<close>: the right operand when the left one is \<open>null\<close> or
  \<open>undefined\<close>, the left one otherwise. \<open>a ?? b ?? c\<close> is \<open>(a ?? b) ?? c\<close>.\<close>

definition nullish :: "'a option \<Rightarrow> 'a \<Rightarrow> 'a" where
  "nullish x d = (case x of None \<Rightarrow> d | Some v \<Rightarrow> v)"

definition nullish_opt :: "'a option \<Rightarrow> 'a option \<Rightarrow> 'a option" where
  "nullish_opt x y = (case x of None \<Rightarrow> y | Some v \<Rightarrow> Some v)"

definition fallback_title :: string where
  "fallback_title = ''Oral Health Tips for Kids''"

text \<open>The source file holds the bytes C3 A2, E2 82 AC, E2 84 A2 after \<open>kids\<close>.\<close>

definition fallback_description :: string where
  "fallback_description =
     ''Expert oral health tips to help families protect kids''
     @ [CHR 0xC3, CHR 0xA2, CHR 0xE2, CHR 0x82, CHR 0xAC, CHR 0xE2, CHR 0x84, CHR 0xA2]
     @ '' smiles with preventive care at home.''"

definition title_suffix :: string where
  "title_suffix = '' | Pediatric Dentist Directory''"

definition category_fallback_description :: string where
  "category_fallback_description =
     ''Practical pediatric oral health advice covering brushing routines, diet tips, and preventative care.''"

definition generateMetadata :: "prisma \<Rightarrow> error + metadata" where
  "generateMetadata db =
     (case getOralHealthTipsData db of
        Inl e \<Rightarrow> Inl e
      | Inr None \<Rightarrow>
          Inr \<lparr> meta_title = fallback_title,
                meta_description = fallback_description,
                meta_openGraph = None \<rparr>
      | Inr (Some data) \<Rightarrow>
          (let category = data_category data in
           Inr \<lparr> meta_title =
                   nullish (category_seoTitle category) (category_name category @ title_suffix),
                 meta_description =
                   nullish
                     (nullish_opt (category_seoDescription category) (category_description category))
                     category_fallback_description,
                 meta_openGraph = Some
                   \<lparr> og_title =
                       nullish (category_seoTitle category) (category_name category @ title_suffix),
                     og_description =
                       nullish
                         (nullish_opt (category_seoDescription category)
                            (category_description category))
                         category_fallback_description \<rparr> \<rparr>))"

subsection \<open>The page \<open>OralHealthTipsPage\<close>\<close>

text \<open>The elements of the tree that depend on the data. An empty string is falsy, so
  \<open>x && e\<close> and \<open>x ? e : f\<close> treat it as they treat \<open>null\<close>; a \<open>Date\<close> is
  always truthy.\<close>

definition truthy :: "string option \<Rightarrow> string option" where
  "truthy x = (case x of None \<Rightarrow> None | Some s \<Rightarrow> if s = [] then None else Some s)"

record card =
  card_key :: ident
  card_image :: "string option"
  card_image_alt :: string
  card_badge :: string
  card_title_href :: string
  card_title :: string
  card_excerpt :: "string option"
  card_author :: string
  card_date :: "string option"
  card_read_href :: string

record sidebar_props =
  prop_categoryName :: string
  prop_siblingCategories :: "summary list"
  prop_relatedArticles :: "article_included list"
  prop_categoryLinkBuilder :: "string \<Rightarrow> string"
  prop_activeCategorySlug :: string

record page_tree =
  hero_label :: string
  hero_heading :: string
  hero_subheading :: string
  empty_state :: bool
  cards :: "card list"
  sidebar :: sidebar_props

definition hero_fallback :: string where
  "hero_fallback =
     ''Actionable oral health guidance from pediatric dental specialists to keep smiles bright at every age.''"

text \<open>One \<open><article>\<close> of \<open>articles.map\<close>. The title link interpolates the slug;
  the "Read tip" link is the template literal \<open>`/blog/{article.slug}/`\<close>, which has no
  \<open>$\<close> and so no interpolation. \<open>formatDate\<close> is imported from \<open>@/lib/utils\<close>.
  The byline reads \<open>article.author.name\<close> with no guard: on an article whose author is
  \<open>null\<close> it throws a \<open>TypeError\<close>.\<close>

definition article_card :: "(datetime \<Rightarrow> string) \<Rightarrow> article_included \<Rightarrow> error + card" where
  "article_card formatDate article =
     (case included_author article of
        None \<Rightarrow> Inl TypeError
      | Some u \<Rightarrow>
          Inr \<lparr> card_key = article_id (row article),
                card_image = truthy (article_featuredImage (row article)),
                card_image_alt = article_title (row article),
                card_badge = ref_name (included_category article),
                card_title_href = ''/blog/'' @ article_slug (row article) @ ''/'',
                card_title = article_title (row article),
                card_excerpt = truthy (article_excerpt (row article)),
                card_author = ref_name u,
                card_date = map_option formatDate (article_publishedAt (row article)),
                card_read_href = ''/blog/{article.slug}/'' \<rparr>)"

text \<open>\<open>articles.map\<close> with a callback that may throw: the cards in the order of the
  articles, or the first error.\<close>

fun articles_map :: "('a \<Rightarrow> error + 'b) \<Rightarrow> 'a list \<Rightarrow> error + 'b list" where
  "articles_map f [] = Inr []"
| "articles_map f (x # xs) =
     (case f x of
        Inl e \<Rightarrow> Inl e
      | Inr y \<Rightarrow> (case articles_map f xs of Inl e \<Rightarrow> Inl e | Inr ys \<Rightarrow> Inr (y # ys)))"

definition render :: "(datetime \<Rightarrow> string) \<Rightarrow> page_data \<Rightarrow> error + page_tree" where
  "render formatDate data =
     (let category = data_category data;
          articles = data_articles data;
          siblings = data_siblingCategories data
      in case articles_map (article_card formatDate) articles of
           Inl e \<Rightarrow> Inl e
         | Inr article_cards \<Rightarrow>
             Inr \<lparr> hero_label = ''Family Oral Care Guides'',
                   hero_heading = category_name category,
                   hero_subheading = nullish (category_description category) hero_fallback,
                   empty_state = (length articles = 0),
                   cards = article_cards,
                   sidebar =
                     \<lparr> prop_categoryName = category_name category,
                       prop_siblingCategories = siblings,
                       prop_relatedArticles = take 3 articles,
                       prop_categoryLinkBuilder = (\<lambda>slug. ''/'' @ slug @ ''/''),
                       prop_activeCategorySlug = CATEGORY_SLUG \<rparr> \<rparr>)"

definition OralHealthTipsPage :: "(datetime \<Rightarrow> string) \<Rightarrow> prisma \<Rightarrow> error + page_tree" where
  "OralHealthTipsPage formatDate db =
     (case getOralHealthTipsData db of
        Inl e \<Rightarrow> Inl e
      | Inr None \<Rightarrow> Inl NotFound
      | Inr (Some data) \<Rightarrow> render formatDate data)"

subsection \<open>Sample databases\<close>

text \<open>A database with four categories, one author and nine articles, every
  \<open>authorId\<close> matching the author; the same database without the page's category; and
  one whose category has empty strings in its optional columns.\<close>

definition demo_category :: "ident \<Rightarrow> string \<Rightarrow> string \<Rightarrow> string option \<Rightarrow> category_row" where
  "demo_category i n s opt =
     \<lparr> category_id = i, category_name = n, category_slug = s, category_description = opt,
       category_seoTitle = opt, category_seoDescription = opt \<rparr>"

definition demo_article :: "ident \<Rightarrow> string \<Rightarrow> datetime option \<Rightarrow> datetime \<Rightarrow> ident \<Rightarrow> article_row" where
  "demo_article i st p c cat =
     \<lparr> article_id = i, article_slug = ''slug-'' @ i, article_title = ''Title '' @ i,
       article_excerpt = None, article_featuredImage = None, article_status = st,
       article_publishedAt = p, article_createdAt = c, article_categoryId = cat,
       article_authorId = ''u1'' \<rparr>"

definition demo_db :: prisma where
  "demo_db =
     \<lparr> category_table =
         [demo_category ''c1'' ''Braces'' ''braces'' None,
          demo_category ''c2'' ''Oral Health Tips'' ''oral-health-tips'' None,
          demo_category ''c3'' ''Teething'' ''teething'' None,
          demo_category ''c4'' ''Anxiety'' ''anxiety'' None],
       author_table =
         [\<lparr> author_id = ''u1'', author_name = ''Dr. Lee'', author_slug = ''dr-lee'' \<rparr>],
       article_table =
         [demo_article ''a1'' ''PUBLISHED'' (Some 100) 90 ''c2'',
          demo_article ''a2'' ''DRAFT'' (Some 300) 80 ''c2'',
          demo_article ''a3'' ''PUBLISHED'' None 50 ''c2'',
          demo_article ''a4'' ''PUBLISHED'' (Some 10) 5 ''c1'',
          demo_article ''a5'' ''PUBLISHED'' (Some 200) 10 ''c2'',
          demo_article ''a6'' ''PUBLISHED'' (Some 20) 5 ''c4'',
          demo_article ''a7'' ''PUBLISHED'' (Some 100) 95 ''c2'',
          demo_article ''a8'' ''PUBLISHED'' None 7 ''c1'',
          demo_article ''a9'' ''DRAFT'' None 7 ''c3''],
       nullsLargest = True,
       collation = (\<le>),
       rejects = (\<lambda>q. False) \<rparr>"

definition demo_missing :: prisma where
  "demo_missing =
     demo_db \<lparr> category_table :=
                 [demo_category ''c1'' ''Braces'' ''braces'' None,
                  demo_category ''c4'' ''Anxiety'' ''anxiety'' None] \<rparr>"

definition demo_blank :: prisma where
  "demo_blank =
     demo_db \<lparr> category_table :=
                 [demo_category ''c2'' ''Oral Health Tips'' ''oral-health-tips'' (Some [])],
               nullsLargest := False \<rparr>"

text \<open>The first database with one more published article of the page's category, whose
  \<open>authorId\<close> matches no author row.\<close>

definition demo_orphan :: prisma where
  "demo_orphan =
     demo_db \<lparr> article_table :=
                 article_table demo_db @
                 [(demo_article ''a10'' ''PUBLISHED'' (Some 150) 1 ''c2'')
                    \<lparr> article_authorId := ''u9'' \<rparr>] \<rparr>"

definition demo_formatDate :: "datetime \<Rightarrow> string" where
  "demo_formatDate t = (if t < 150 then ''January 1, 1970'' else ''January 2, 1970'')"

section \<open>Properties\<close>

subsection \<open>Sorting\<close>

lemma set_insert_by: "set (insert_by le x xs) = insert x (set xs)"
  by (induction xs) auto

lemma set_orderBy: "set (orderBy le xs) = set xs"
  unfolding orderBy_def by (induction xs) (simp_all add: set_insert_by)

lemma sorted_insert_by:
  assumes total: "\<And>a b. le a b \<or> le b a"
    and trans: "\<And>a b c. le a b \<Longrightarrow> le b c \<Longrightarrow> le a c"
    and sorted: "sorted_wrt le xs"
  shows "sorted_wrt le (insert_by le x xs)"
  using sorted
proof (induction xs)
  case Nil
  then show ?case by simp
next
  case (Cons y ys)
  show ?case
  proof (cases "le x y")
    case True
    with Cons.prems trans show ?thesis by auto
  next
    case False
    with total have "le y x" by blast
    with False Cons show ?thesis by (auto simp: set_insert_by)
  qed
qed

lemma sorted_orderBy:
  assumes total: "\<And>a b. le a b \<or> le b a"
    and trans: "\<And>a b c. le a b \<Longrightarrow> le b c \<Longrightarrow> le a c"
  shows "sorted_wrt le (orderBy le xs)"
  unfolding orderBy_def
  by (induction xs) (simp_all add: sorted_insert_by [OF total trans])

lemma desc_nullable_total: "desc_nullable nl x y \<or> desc_nullable nl y x"
  by (cases x; cases y) auto

lemma desc_nullable_refl: "desc_nullable nl x x"
  by (cases x) auto

lemma article_order_total: "article_order nl a b \<or> article_order nl b a"
  unfolding article_order_def using desc_nullable_total [of nl] by auto

lemma article_order_trans:
  "article_order nl a b \<Longrightarrow> article_order nl b c \<Longrightarrow> article_order nl a c"
  unfolding article_order_def
  by (cases "article_publishedAt (row a)"; cases "article_publishedAt (row b)";
      cases "article_publishedAt (row c)") (auto split: if_splits)

lemma sorted_article_findMany:
  "sorted_wrt (article_order (nullsLargest db)) (article_findMany db)"
  unfolding article_findMany_def
  by (rule sorted_orderBy) (rule article_order_total, erule article_order_trans)

subsection \<open>The loader's three outcomes\<close>

lemma promise_all_Inr:
  "(promise_all p q r = Inr v) = (\<exists>a b c. p = Inr a \<and> q = Inr b \<and> r = Inr c \<and> v = (a, b, c))"
  by (cases p; cases q; cases r) auto

lemma promise_all_Inl: "promise_all p q r = Inl e \<Longrightarrow> e = QueryRejected"
  by (cases p; cases q; cases r) auto

lemma run_Inr: "(run db q r = Inr v) = (\<not> rejects db q \<and> v = r)"
  by (auto simp: run_def)

lemma loader_None:
  "(getOralHealthTipsData db = Inr None) =
     (\<not> rejects db CategoryFindUnique \<and> \<not> rejects db ArticleFindMany \<and>
      \<not> rejects db CategoryFindMany \<and> category_findUnique db = None)"
  by (cases "rejects db CategoryFindUnique"; cases "rejects db ArticleFindMany";
      cases "rejects db CategoryFindMany"; cases "category_findUnique db")
     (simp_all add: getOralHealthTipsData_def run_def)

lemma loader_Inl: "getOralHealthTipsData db = Inl e \<Longrightarrow> e = QueryRejected"
  unfolding getOralHealthTipsData_def
  by (auto split: sum.splits option.splits dest: promise_all_Inl)

lemma loader_Some:
  assumes "getOralHealthTipsData db = Inr (Some d)"
  shows "category_findUnique db = Some (data_category d)"
    and "data_articles d = article_findMany db"
    and "data_siblingCategories d =
           map (\<lambda>item. \<lparr> summary_name = sibling_name item, summary_slug = sibling_slug item,
                         summary_count = length (sibling_articles item) \<rparr>)
             (category_findMany db)"
  using assms unfolding getOralHealthTipsData_def
  by (auto simp: promise_all_Inr run_Inr split: sum.splits option.splits)

lemma find_None_iff_ball: "(find P xs = None) = (\<forall>x\<in>set xs. \<not> P x)"
  by (auto simp: find_None_iff)

lemma article_where_include_Some:
  "article_where_include db a = Some x \<Longrightarrow>
     row x = a \<and> article_status a = PUBLISHED \<and> ref_slug (included_category x) = CATEGORY_SLUG"
  unfolding article_where_include_def
  by (auto split: if_splits option.splits)

lemma set_article_findMany:
  "x \<in> set (article_findMany db) \<Longrightarrow>
     \<exists>a \<in> set (article_table db). article_where_include db a = Some x"
  unfolding article_findMany_def
  by (auto simp: set_orderBy List.map_filter_def)

subsection \<open>The cards and the rendered tree\<close>

lemma article_card_Inl:
  "article_card formatDate a = Inl e \<Longrightarrow> e = TypeError \<and> included_author a = None"
  by (auto simp: article_card_def split: option.splits)

lemma article_card_Inr:
  "article_card formatDate a = Inr c \<Longrightarrow>
     included_author a \<noteq> None \<and>
     card_key c = article_id (row a) \<and>
     card_title_href c = ''/blog/'' @ article_slug (row a) @ ''/'' \<and>
     card_read_href c = ''/blog/{article.slug}/''"
  by (auto simp: article_card_def split: option.splits)

lemma list_all2_articles_map:
  "list_all2 (\<lambda>x y. f x = Inr y) xs ys = (articles_map f xs = Inr ys)"
  by (induction xs arbitrary: ys) (auto simp: list_all2_Cons1 split: sum.splits)

lemma articles_map_Inr:
  "(articles_map f xs = Inr ys) = list_all2 (\<lambda>x y. f x = Inr y) xs ys"
  by (rule list_all2_articles_map [symmetric])

lemma articles_map_Inl: "articles_map f xs = Inl e \<Longrightarrow> \<exists>x \<in> set xs. f x = Inl e"
  by (induction xs) (auto split: sum.splits)


lemma list_all2_map_eq:
  "list_all2 (\<lambda>x y. g x = h y) xs ys \<Longrightarrow> map g xs = map h ys"
  by (induction xs ys rule: list_all2_induct) auto

lemma render_Inl: "render formatDate d = Inl e \<Longrightarrow> e = TypeError"
  unfolding render_def Let_def
  by (auto split: sum.splits dest!: articles_map_Inl article_card_Inl)

lemma render_Inr:
  assumes "render formatDate d = Inr t"
  shows "list_all2 (\<lambda>a c. article_card formatDate a = Inr c) (data_articles d) (cards t)"
    and "empty_state t = (data_articles d = [])"
    and "hero_subheading t = nullish (category_description (data_category d)) hero_fallback"
    and "prop_relatedArticles (sidebar t) = take 3 (data_articles d)"
  using assms unfolding render_def Let_def
  by (auto simp: articles_map_Inr split: sum.splits)

lemma page_Inr:
  "OralHealthTipsPage formatDate db = Inr t \<Longrightarrow>
     \<exists>d. getOralHealthTipsData db = Inr (Some d) \<and> render formatDate d = Inr t"
  unfolding OralHealthTipsPage_def by (auto split: sum.splits option.splits)

lemma page_of_data:
  "getOralHealthTipsData db = Inr (Some d) \<Longrightarrow>
     OralHealthTipsPage formatDate db = render formatDate d"
  by (simp add: OralHealthTipsPage_def)


text \<open>The definitions a concrete run unfolds.\<close>

lemmas demo_defs = demo_db_def demo_missing_def demo_blank_def demo_orphan_def demo_category_def
  demo_article_def demo_formatDate_def

lemmas eval_defs = getOralHealthTipsData_def generateMetadata_def OralHealthTipsPage_def
  render_def article_card_def truthy_def nullish_def nullish_opt_def run_def
  article_findMany_def category_findMany_def category_findUnique_def
  article_where_include_def category_of_def author_of_def published_ids_def sibling_where_def
  sibling_select_def orderBy_def article_order_def List.map_filter_def
  CATEGORY_SLUG_def PUBLISHED_def fallback_title_def fallback_description_def title_suffix_def
  category_fallback_description_def hero_fallback_def

subsection \<open>The not-found outcome\<close>

text \<open>
  C1. The loader returns \<open>null\<close> exactly when the category query finds no row with the
  slug \<open>oral-health-tips\<close> and all three queries have resolved: a rejected article or
  sibling query makes the loader fail instead, also when the category is absent, so
  nothing short-circuits. The page then ends in \<open>notFound()\<close>, exactly in that case,
  and produces no tree.
\<close>

theorem loader_not_found_iff:
  "((getOralHealthTipsData db = Inr None) =
      (category_findUnique db = None \<and> \<not> rejects db CategoryFindUnique \<and>
       \<not> rejects db ArticleFindMany \<and> \<not> rejects db CategoryFindMany)) \<and>
   ((category_findUnique db = None) =
      (\<forall>c \<in> set (category_table db). category_slug c \<noteq> ''oral-health-tips'')) \<and>
   ((OralHealthTipsPage formatDate db = Inl NotFound) = (getOralHealthTipsData db = Inr None)) \<and>
   (getOralHealthTipsData db = Inr None \<longrightarrow> (\<forall>t. OralHealthTipsPage formatDate db \<noteq> Inr t))"
proof -
  have a: "(getOralHealthTipsData db = Inr None) =
      (category_findUnique db = None \<and> \<not> rejects db CategoryFindUnique \<and>
       \<not> rejects db ArticleFindMany \<and> \<not> rejects db CategoryFindMany)"
    by (auto simp: loader_None)
  have b: "(category_findUnique db = None) =
      (\<forall>c \<in> set (category_table db). category_slug c \<noteq> ''oral-health-tips'')"
    by (simp add: category_findUnique_def CATEGORY_SLUG_def find_None_iff_ball)
  have c: "(OralHealthTipsPage formatDate db = Inl NotFound) = (getOralHealthTipsData db = Inr None)"
    unfolding OralHealthTipsPage_def
    by (auto split: sum.splits option.splits dest: loader_Inl render_Inl)
  have d: "getOralHealthTipsData db = Inr None \<longrightarrow> (\<forall>t. OralHealthTipsPage formatDate db \<noteq> Inr t)"
    by (simp add: OralHealthTipsPage_def)
  from a b c d show ?thesis by blast
qed

theorem loader_not_found_iff_witness:
  "getOralHealthTipsData demo_missing = Inr None \<and>
   category_findUnique demo_missing = None \<and>
   OralHealthTipsPage demo_formatDate demo_missing = Inl NotFound \<and>
   getOralHealthTipsData (demo_missing \<lparr> rejects := (\<lambda>q. q = ArticleFindMany) \<rparr>)
     = Inl QueryRejected \<and>
   getOralHealthTipsData demo_db \<noteq> Inr None"
proof -
  have a: "category_findUnique demo_missing = None"
    by (simp add: demo_defs eval_defs)
  have r: "\<not> rejects demo_missing CategoryFindUnique \<and> \<not> rejects demo_missing ArticleFindMany \<and>
           \<not> rejects demo_missing CategoryFindMany"
    by (simp add: demo_defs)
  have b: "getOralHealthTipsData (demo_missing \<lparr> rejects := (\<lambda>q. q = ArticleFindMany) \<rparr>)
     = Inl QueryRejected"
    by (simp add: getOralHealthTipsData_def run_def)
  have c: "category_findUnique demo_db \<noteq> None"
    by (simp add: demo_defs eval_defs)
  from loader_not_found_iff [of demo_missing demo_formatDate]
    loader_not_found_iff [of demo_db demo_formatDate] a r b c
  show ?thesis by blast
qed

subsection \<open>The article cards' links\<close>

text \<open>
  C2. On every rendered page, the "Read tip" link of every card has the destination
  \<open>/blog/{article.slug}/\<close>, the literal text of the template, whatever the article's
  slug; the title links are \<open>/blog/\<close>, the article's own slug and \<open>/\<close>, card by card in
  the loader's order.
\<close>

theorem read_tip_href_literal:
  assumes "OralHealthTipsPage formatDate db = Inr t"
  shows "(\<forall>c \<in> set (cards t). card_read_href c = ''/blog/{article.slug}/'') \<and>
         map card_title_href (cards t) =
           map (\<lambda>a. ''/blog/'' @ article_slug (row a) @ ''/'') (article_findMany db) \<and>
         length (cards t) = length (article_findMany db)"
proof -
  from page_Inr [OF assms] obtain d where d: "getOralHealthTipsData db = Inr (Some d)"
    and t: "render formatDate d = Inr t"
    by blast
  have cs: "list_all2 (\<lambda>a c. article_card formatDate a = Inr c) (article_findMany db) (cards t)"
    using render_Inr(1) [OF t] loader_Some(2) [OF d] by simp
  have "card_read_href c = ''/blog/{article.slug}/''" if "c \<in> set (cards t)" for c
  proof -
    from that cs obtain a where "article_card formatDate a = Inr c"
      by (auto simp: list_all2_conv_all_nth in_set_conv_nth)
    then show ?thesis by (simp add: article_card_Inr)
  qed
  moreover have "map card_title_href (cards t) =
           map (\<lambda>a. ''/blog/'' @ article_slug (row a) @ ''/'') (article_findMany db)"
  proof -
    from cs have "list_all2 (\<lambda>a c. ''/blog/'' @ article_slug (row a) @ ''/'' = card_title_href c)
                    (article_findMany db) (cards t)"
      by (rule list_all2_mono) (simp add: article_card_Inr)
    then show ?thesis by (rule list_all2_map_eq [symmetric])
  qed
  moreover have "length (cards t) = length (article_findMany db)"
    using cs by (simp add: list_all2_lengthD)
  ultimately show ?thesis by blast
qed

theorem read_tip_href_literal_witness:
  "case OralHealthTipsPage demo_formatDate demo_db of
      Inl e \<Rightarrow> False
    | Inr t \<Rightarrow>
       map card_read_href (cards t) =
         [''/blog/{article.slug}/'', ''/blog/{article.slug}/'',
          ''/blog/{article.slug}/'', ''/blog/{article.slug}/''] \<and>
       map card_title_href (cards t) =
         [''/blog/slug-a3/'', ''/blog/slug-a5/'', ''/blog/slug-a7/'', ''/blog/slug-a1/''] \<and>
       length (cards t) = length (article_findMany demo_db)"
proof -
  have "case OralHealthTipsPage demo_formatDate demo_db of
      Inl e \<Rightarrow> False
    | Inr t \<Rightarrow>
       map card_read_href (cards t) =
         [''/blog/{article.slug}/'', ''/blog/{article.slug}/'',
          ''/blog/{article.slug}/'', ''/blog/{article.slug}/''] \<and>
       map card_title_href (cards t) =
         [''/blog/slug-a3/'', ''/blog/slug-a5/'', ''/blog/slug-a7/'', ''/blog/slug-a1/'']"
    by (simp add: demo_defs eval_defs)
  then obtain t where h: "OralHealthTipsPage demo_formatDate demo_db = Inr t"
    and o: "map card_read_href (cards t) =
         [''/blog/{article.slug}/'', ''/blog/{article.slug}/'',
          ''/blog/{article.slug}/'', ''/blog/{article.slug}/'']"
       "map card_title_href (cards t) =
         [''/blog/slug-a3/'', ''/blog/slug-a5/'', ''/blog/slug-a7/'', ''/blog/slug-a1/'']"
    by (cases "OralHealthTipsPage demo_formatDate demo_db") simp_all
  from read_tip_href_literal [OF h] h o show ?thesis by simp
qed

subsection \<open>The article list\<close>

text \<open>
  C3. The articles the loader returns are in descending order of \<open>publishedAt\<close>, ties
  broken by descending \<open>createdAt\<close>. For every pair of positions \<open>i < j\<close> (so for every
  adjacent pair), with \<open>a\<close> the article at \<open>i\<close> and \<open>b\<close> the one at \<open>j\<close>:
  \<open>a.publishedAt\<close> is not below \<open>b.publishedAt\<close> in the database's order of nullable
  dates (two dates compare as numbers; where \<open>null\<close> stands is the database's choice),
  and when the two are equal, both \<open>null\<close> included, \<open>a.createdAt \<ge> b.createdAt\<close>.
\<close>

theorem articles_sorted_desc:
  assumes "getOralHealthTipsData db = Inr (Some d)"
  shows "\<forall>i j. i < j \<and> j < length (data_articles d) \<longrightarrow>
           (let a = data_articles d ! i; b = data_articles d ! j in
              desc_nullable (nullsLargest db)
                 (article_publishedAt (row a)) (article_publishedAt (row b)) \<and>
              (\<forall>p q. article_publishedAt (row a) = Some p \<and> article_publishedAt (row b) = Some q
                  \<longrightarrow> q \<le> p) \<and>
              (article_publishedAt (row a) = article_publishedAt (row b)
                  \<longrightarrow> article_createdAt (row b) \<le> article_createdAt (row a)))"
proof (intro allI impI)
  fix i j
  assume ij: "i < j \<and> j < length (data_articles d)"
  have "sorted_wrt (article_order (nullsLargest db)) (data_articles d)"
    using loader_Some(2) [OF assms] sorted_article_findMany by simp
  with ij have o: "article_order (nullsLargest db) (data_articles d ! i) (data_articles d ! j)"
    by (simp add: sorted_wrt_iff_nth_less)
  then show "let a = data_articles d ! i; b = data_articles d ! j in
              desc_nullable (nullsLargest db)
                 (article_publishedAt (row a)) (article_publishedAt (row b)) \<and>
              (\<forall>p q. article_publishedAt (row a) = Some p \<and> article_publishedAt (row b) = Some q
                  \<longrightarrow> q \<le> p) \<and>
              (article_publishedAt (row a) = article_publishedAt (row b)
                  \<longrightarrow> article_createdAt (row b) \<le> article_createdAt (row a))"
    unfolding article_order_def Let_def
    by (auto simp: desc_nullable_refl split: if_splits)
qed

theorem articles_sorted_desc_witness:
  "case getOralHealthTipsData demo_orphan of
     Inr (Some d) \<Rightarrow>
       map (\<lambda>a. (article_publishedAt (row a), article_createdAt (row a))) (data_articles d) =
         [(None, 50), (Some 200, 10), (Some 150, 1), (Some 100, 95), (Some 100, 90)] \<and>
       desc_nullable (nullsLargest demo_orphan)
         (article_publishedAt (row (data_articles d ! 0)))
         (article_publishedAt (row (data_articles d ! 4))) \<and>
       article_createdAt (row (data_articles d ! 4)) \<le> article_createdAt (row (data_articles d ! 3))
   | _ \<Rightarrow> False"
proof -
  let ?f = "\<lambda>a. (article_publishedAt (row a), article_createdAt (row a))"
  have "case getOralHealthTipsData demo_orphan of
     Inr (Some d) \<Rightarrow>
       map ?f (data_articles d) =
         [(None, 50), (Some 200, 10), (Some 150, 1), (Some 100, 95), (Some 100, 90)]
   | _ \<Rightarrow> False"
    by (simp add: demo_defs eval_defs)
  then obtain d where h: "getOralHealthTipsData demo_orphan = Inr (Some d)"
    and o: "map ?f (data_articles d) =
         [(None, 50), (Some 200, 10), (Some 150, 1), (Some 100, 95), (Some 100, 90)]"
    by (auto split: sum.splits option.splits)
  from o have "length (map ?f (data_articles d)) = 5" by simp
  then have l: "length (data_articles d) = 5" by simp
  have "?f (data_articles d ! 3) = map ?f (data_articles d) ! 3"
       "?f (data_articles d ! 4) = map ?f (data_articles d) ! 4"
    using l by simp_all
  with o have e: "article_publishedAt (row (data_articles d ! 3)) =
                  article_publishedAt (row (data_articles d ! 4))"
    by simp
  from articles_sorted_desc [OF h] l have
    "desc_nullable (nullsLargest demo_orphan)
         (article_publishedAt (row (data_articles d ! 0)))
         (article_publishedAt (row (data_articles d ! 4)))"
    "article_publishedAt (row (data_articles d ! 3)) = article_publishedAt (row (data_articles d ! 4))
       \<longrightarrow> article_createdAt (row (data_articles d ! 4)) \<le> article_createdAt (row (data_articles d ! 3))"
    by (simp_all add: Let_def)
  with e h o show ?thesis by simp
qed

text \<open>
  C4. Every article the loader returns is a row of the article table with the status
  \<open>PUBLISHED\<close>, and the slug of its category is \<open>oral-health-tips\<close>.
\<close>

theorem articles_published_in_category:
  assumes "getOralHealthTipsData db = Inr (Some d)"
  shows "\<forall>x \<in> set (data_articles d).
           article_status (row x) = ''PUBLISHED'' \<and>
           ref_slug (included_category x) = ''oral-health-tips'' \<and>
           row x \<in> set (article_table db)"
proof
  fix x assume "x \<in> set (data_articles d)"
  then have "x \<in> set (article_findMany db)" using loader_Some(2) [OF assms] by simp
  then obtain a where "a \<in> set (article_table db)" "article_where_include db a = Some x"
    using set_article_findMany by blast
  then show "article_status (row x) = ''PUBLISHED'' \<and>
           ref_slug (included_category x) = ''oral-health-tips'' \<and>
           row x \<in> set (article_table db)"
    using article_where_include_Some [of db a x] by (simp add: PUBLISHED_def CATEGORY_SLUG_def)
qed

theorem articles_published_in_category_witness:
  "case getOralHealthTipsData demo_orphan of
     Inr (Some d) \<Rightarrow>
       map (\<lambda>x. (article_id (row x), map_option ref_name (included_author x))) (data_articles d) =
         [(''a3'', Some ''Dr. Lee''), (''a5'', Some ''Dr. Lee''), (''a10'', None),
          (''a7'', Some ''Dr. Lee''), (''a1'', Some ''Dr. Lee'')] \<and>
       (\<forall>x \<in> set (data_articles d).
           article_status (row x) = ''PUBLISHED'' \<and>
           ref_slug (included_category x) = ''oral-health-tips'' \<and>
           row x \<in> set (article_table demo_orphan))
   | _ \<Rightarrow> False"
proof -
  have "case getOralHealthTipsData demo_orphan of
     Inr (Some d) \<Rightarrow>
       map (\<lambda>x. (article_id (row x), map_option ref_name (included_author x))) (data_articles d) =
         [(''a3'', Some ''Dr. Lee''), (''a5'', Some ''Dr. Lee''), (''a10'', None),
          (''a7'', Some ''Dr. Lee''), (''a1'', Some ''Dr. Lee'')]
   | _ \<Rightarrow> False"
    by (simp add: demo_defs eval_defs)
  then obtain d where h: "getOralHealthTipsData demo_orphan = Inr (Some d)"
    and o: "map (\<lambda>x. (article_id (row x), map_option ref_name (included_author x)))
              (data_articles d) =
         [(''a3'', Some ''Dr. Lee''), (''a5'', Some ''Dr. Lee''), (''a10'', None),
          (''a7'', Some ''Dr. Lee''), (''a1'', Some ''Dr. Lee'')]"
    by (auto split: sum.splits option.splits)
  from articles_published_in_category [OF h] h o show ?thesis by simp
qed

subsection \<open>The sibling categories\<close>

lemma list_ex_filter_length: "list_ex P xs \<Longrightarrow> 1 \<le> length (filter P xs)"
  by (induction xs) auto

lemma set_category_findMany:
  "item \<in> set (category_findMany db) \<Longrightarrow>
     \<exists>c \<in> set (category_table db). sibling_where db c \<and> item = sibling_select db c"
  unfolding category_findMany_def by (auto simp: set_orderBy)

lemma sorted_category_findMany:
  assumes total: "\<And>a b. collation db a b \<or> collation db b a"
    and trans: "\<And>a b c. collation db a b \<Longrightarrow> collation db b c \<Longrightarrow> collation db a c"
  shows "sorted_wrt (collation db) (map sibling_name (category_findMany db))"
proof -
  have "sorted_wrt (\<lambda>x y. collation db (sibling_name x) (sibling_name y)) (category_findMany db)"
    unfolding category_findMany_def
    by (rule sorted_orderBy) (rule total, erule trans)
  then show ?thesis by (simp add: sorted_wrt_map)
qed

text \<open>
  C5. Every sibling summary the loader returns comes from a category of the table
  whose slug is not \<open>oral-health-tips\<close>; its count is the number of that category's
  \<open>PUBLISHED\<close> articles, which is at least 1. Under a collation that is a total
  preorder, the summaries are in ascending order of name.
\<close>

theorem sibling_summaries:
  assumes "getOralHealthTipsData db = Inr (Some d)"
    and total: "\<forall>a b. collation db a b \<or> collation db b a"
    and trans: "\<forall>a b c. collation db a b \<longrightarrow> collation db b c \<longrightarrow> collation db a c"
  shows "(\<forall>s \<in> set (data_siblingCategories d).
            summary_slug s \<noteq> ''oral-health-tips'' \<and>
            1 \<le> summary_count s \<and>
            (\<exists>c \<in> set (category_table db).
               summary_name s = category_name c \<and>
               summary_slug s = category_slug c \<and>
               summary_count s =
                 length (filter (\<lambda>a. article_categoryId a = category_id c \<and>
                                      article_status a = ''PUBLISHED'') (article_table db)))) \<and>
         sorted_wrt (collation db) (map summary_name (data_siblingCategories d))"
proof -
  let ?mk = "\<lambda>item. \<lparr> summary_name = sibling_name item, summary_slug = sibling_slug item,
                       summary_count = length (sibling_articles item) \<rparr>"
  have sibs: "data_siblingCategories d = map ?mk (category_findMany db)"
    by (rule loader_Some(3) [OF assms(1)])
  have "summary_slug s \<noteq> ''oral-health-tips'' \<and>
        1 \<le> summary_count s \<and>
        (\<exists>c \<in> set (category_table db).
           summary_name s = category_name c \<and>
           summary_slug s = category_slug c \<and>
           summary_count s =
             length (filter (\<lambda>a. article_categoryId a = category_id c \<and>
                                  article_status a = ''PUBLISHED'') (article_table db)))"
    if "s \<in> set (data_siblingCategories d)" for s
  proof -
    from that sibs obtain item where item: "item \<in> set (category_findMany db)" and s: "s = ?mk item"
      by auto
    from set_category_findMany [OF item] obtain c where c: "c \<in> set (category_table db)"
      and w: "sibling_where db c" and sel: "item = sibling_select db c"
      by blast
    let ?P = "\<lambda>a. article_categoryId a = category_id c \<and> article_status a = ''PUBLISHED''"
    have cnt: "summary_count s = length (filter ?P (article_table db))"
      by (simp add: s sel sibling_select_def published_ids_def PUBLISHED_def)
    from w have "list_ex ?P (article_table db)"
      by (simp add: sibling_where_def PUBLISHED_def)
    then have "1 \<le> length (filter ?P (article_table db))"
      by (rule list_ex_filter_length)
    moreover from w have "summary_slug s \<noteq> ''oral-health-tips''"
      by (simp add: s sel sibling_select_def sibling_where_def CATEGORY_SLUG_def)
    moreover have "summary_name s = category_name c" "summary_slug s = category_slug c"
      by (simp_all add: s sel sibling_select_def)
    ultimately show ?thesis using c cnt by auto
  qed
  moreover have "sorted_wrt (collation db) (map summary_name (data_siblingCategories d))"
  proof -
    have "sorted_wrt (collation db) (map sibling_name (category_findMany db))"
    proof (rule sorted_category_findMany)
      show "collation db a b \<or> collation db b a" for a b using total by blast
      show "collation db a c" if "collation db a b" "collation db b c" for a b c
        using trans that by blast
    qed
    then show ?thesis by (simp add: sibs comp_def)
  qed
  ultimately show ?thesis by blast
qed

theorem sibling_summaries_witness:
  "case getOralHealthTipsData demo_db of
     Inr (Some d) \<Rightarrow>
       data_siblingCategories d =
         [\<lparr> summary_name = ''Anxiety'', summary_slug = ''anxiety'', summary_count = 1 \<rparr>,
          \<lparr> summary_name = ''Braces'', summary_slug = ''braces'', summary_count = 2 \<rparr>] \<and>
       sorted_wrt (collation demo_db) (map summary_name (data_siblingCategories d)) \<and>
       (\<forall>s \<in> set (data_siblingCategories d).
            summary_slug s \<noteq> ''oral-health-tips'' \<and> 1 \<le> summary_count s)
   | _ \<Rightarrow> False"
proof -
  have "case getOralHealthTipsData demo_db of
     Inr (Some d) \<Rightarrow>
       data_siblingCategories d =
         [\<lparr> summary_name = ''Anxiety'', summary_slug = ''anxiety'', summary_count = 1 \<rparr>,
          \<lparr> summary_name = ''Braces'', summary_slug = ''braces'', summary_count = 2 \<rparr>]
   | _ \<Rightarrow> False"
    by (simp add: demo_defs eval_defs)
  then obtain d where h: "getOralHealthTipsData demo_db = Inr (Some d)"
    and o: "data_siblingCategories d =
         [\<lparr> summary_name = ''Anxiety'', summary_slug = ''anxiety'', summary_count = 1 \<rparr>,
          \<lparr> summary_name = ''Braces'', summary_slug = ''braces'', summary_count = 2 \<rparr>]"
    by (auto split: sum.splits option.splits)
  have c: "collation demo_db = (\<le>)" by (simp add: demo_db_def)
  have total: "\<forall>a b. collation demo_db a b \<or> collation demo_db b a"
    unfolding c by (simp add: linear)
  have trans: "\<forall>a b c. collation demo_db a b \<longrightarrow> collation demo_db b c \<longrightarrow> collation demo_db a c"
    unfolding c by (blast intro: order_trans)
  from sibling_summaries [OF h total trans]
  have "sorted_wrt (collation demo_db) (map summary_name (data_siblingCategories d))"
    and "\<forall>s \<in> set (data_siblingCategories d).
            summary_slug s \<noteq> ''oral-health-tips'' \<and> 1 \<le> summary_count s"
    by blast+
  with h o show ?thesis by simp
qed

subsection \<open>The metadata\<close>

lemma metadata_Some:
  assumes "getOralHealthTipsData db = Inr (Some d)"
  shows "generateMetadata db =
           Inr \<lparr> meta_title =
                   nullish (category_seoTitle (data_category d))
                     (category_name (data_category d) @ title_suffix),
                 meta_description =
                   nullish
                     (nullish_opt (category_seoDescription (data_category d))
                        (category_description (data_category d)))
                     category_fallback_description,
                 meta_openGraph = Some
                   \<lparr> og_title =
                       nullish (category_seoTitle (data_category d))
                         (category_name (data_category d) @ title_suffix),
                     og_description =
                       nullish
                         (nullish_opt (category_seoDescription (data_category d))
                            (category_description (data_category d)))
                         category_fallback_description \<rparr> \<rparr>"
  using assms by (simp add: generateMetadata_def Let_def)

text \<open>
  C6. When the loader returns the data, the metadata's title is the category's
  \<open>seoTitle\<close> when it has one, and its name followed by
  \<open> | Pediatric Dentist Directory\<close> otherwise; the description is the category's
  \<open>seoDescription\<close> when it has one, else its \<open>description\<close> when it has one, else the
  fixed sentence.
\<close>

theorem metadata_title_description:
  assumes "getOralHealthTipsData db = Inr (Some d)"
  shows "\<exists>m. generateMetadata db = Inr m \<and>
           category_findUnique db = Some (data_category d) \<and>
           meta_title m =
             (case category_seoTitle (data_category d) of
                Some s \<Rightarrow> s
              | None \<Rightarrow> category_name (data_category d) @ '' | Pediatric Dentist Directory'') \<and>
           meta_description m =
             (case category_seoDescription (data_category d) of
                Some s \<Rightarrow> s
              | None \<Rightarrow>
                  (case category_description (data_category d) of
                     Some s \<Rightarrow> s
                   | None \<Rightarrow> ''Practical pediatric oral health advice covering brushing routines, diet tips, and preventative care.''))"
  using metadata_Some [OF assms] loader_Some(1) [OF assms]
  by (simp add: nullish_def nullish_opt_def title_suffix_def category_fallback_description_def
        split: option.splits)

theorem metadata_title_description_witness:
  "case generateMetadata demo_db of
     Inr m \<Rightarrow>
       meta_title m = ''Oral Health Tips | Pediatric Dentist Directory'' \<and>
       meta_description m =
         ''Practical pediatric oral health advice covering brushing routines, diet tips, and preventative care.''
   | Inl e \<Rightarrow> False"
proof -
  have "case getOralHealthTipsData demo_db of
     Inr (Some d) \<Rightarrow>
       category_name (data_category d) = ''Oral Health Tips'' \<and>
       category_seoTitle (data_category d) = None \<and>
       category_seoDescription (data_category d) = None \<and>
       category_description (data_category d) = None
   | _ \<Rightarrow> False"
    by (simp add: demo_defs eval_defs)
  then obtain d where h: "getOralHealthTipsData demo_db = Inr (Some d)"
    and o: "category_name (data_category d) = ''Oral Health Tips''"
      "category_seoTitle (data_category d) = None"
      "category_seoDescription (data_category d) = None"
      "category_description (data_category d) = None"
    by (auto split: sum.splits option.splits)
  from metadata_title_description [OF h] o show ?thesis by auto
qed

text \<open>
  C7. When the loader returns the data, the metadata has an Open Graph part, whose title
  and description are equal to the metadata's own title and description.
\<close>

theorem open_graph_mirrors:
  assumes "getOralHealthTipsData db = Inr (Some d)"
  shows "\<exists>m og. generateMetadata db = Inr m \<and> meta_openGraph m = Some og \<and>
           og_title og = meta_title m \<and> og_description og = meta_description m"
  using metadata_Some [OF assms] by simp

theorem open_graph_mirrors_witness:
  "case generateMetadata demo_blank of
     Inr m \<Rightarrow>
       (case meta_openGraph m of
          Some og \<Rightarrow> og_title og = meta_title m \<and> og_description og = meta_description m
        | None \<Rightarrow> False)
   | Inl e \<Rightarrow> False"
proof -
  have "case getOralHealthTipsData demo_blank of Inr (Some d) \<Rightarrow> True | _ \<Rightarrow> False"
    by (simp add: demo_defs eval_defs)
  then obtain d where h: "getOralHealthTipsData demo_blank = Inr (Some d)"
    by (auto split: sum.splits option.splits)
  from open_graph_mirrors [OF h] show ?thesis by auto
qed

text \<open>
  C8. When the loader returns \<open>null\<close>, the metadata is the fixed pair: the title
  \<open>Oral Health Tips for Kids\<close> and the fixed description, with no Open Graph part;
  nothing in it comes from the database.
\<close>

theorem metadata_fallback_when_absent:
  assumes "getOralHealthTipsData db = Inr None"
  shows "generateMetadata db =
           Inr \<lparr> meta_title = ''Oral Health Tips for Kids'',
                 meta_description =
                   ''Expert oral health tips to help families protect kids''
                   @ [CHR 0xC3, CHR 0xA2, CHR 0xE2, CHR 0x82, CHR 0xAC, CHR 0xE2, CHR 0x84, CHR 0xA2]
                   @ '' smiles with preventive care at home.'',
                 meta_openGraph = None \<rparr>"
  using assms
  by (simp add: generateMetadata_def fallback_title_def fallback_description_def)

theorem metadata_fallback_when_absent_witness:
  "getOralHealthTipsData demo_missing = Inr None \<and>
   (case generateMetadata demo_missing of
      Inr m \<Rightarrow> meta_title m = ''Oral Health Tips for Kids'' \<and> meta_openGraph m = None
    | Inl e \<Rightarrow> False)"
proof -
  have h: "getOralHealthTipsData demo_missing = Inr None"
    by (simp add: demo_defs eval_defs)
  from metadata_fallback_when_absent [OF h] h show ?thesis by simp
qed

subsection \<open>The listing region and the sidebar\<close>



subsection \<open>Empty strings in the optional columns\<close>

text \<open>
  C10. A column that holds a string is present, also when the string is empty: the
  metadata's title is the \<open>seoTitle\<close> whenever there is one, its description is the
  \<open>seoDescription\<close> whenever there is one and else the \<open>description\<close> whenever there is
  one, and in every tree the page renders the hero's subheading is the \<open>description\<close>
  whenever there is one. So an empty \<open>seoTitle\<close>, \<open>seoDescription\<close> or
  \<open>description\<close> gives an empty title, description or subheading, and the fallback
  texts stand only for \<open>null\<close>.
\<close>

theorem empty_string_is_present:
  assumes "getOralHealthTipsData db = Inr (Some d)"
  shows "\<exists>m og. generateMetadata db = Inr m \<and> meta_openGraph m = Some og \<and>
           (\<forall>s. category_seoTitle (data_category d) = Some s \<longrightarrow>
                  meta_title m = s \<and> og_title og = s) \<and>
           (\<forall>s. category_seoDescription (data_category d) = Some s \<longrightarrow>
                  meta_description m = s \<and> og_description og = s) \<and>
           (\<forall>s. category_seoDescription (data_category d) = None \<and>
                 category_description (data_category d) = Some s \<longrightarrow>
                  meta_description m = s \<and> og_description og = s) \<and>
           (category_seoTitle (data_category d) = Some [] \<longrightarrow> meta_title m = []) \<and>
           (category_seoDescription (data_category d) = Some [] \<longrightarrow> meta_description m = []) \<and>
           (category_seoTitle (data_category d) = None \<longrightarrow>
              meta_title m = category_name (data_category d) @ '' | Pediatric Dentist Directory'') \<and>
           (\<forall>t. OralHealthTipsPage formatDate db = Inr t \<longrightarrow>
              (\<forall>s. category_description (data_category d) = Some s \<longrightarrow> hero_subheading t = s) \<and>
              (category_description (data_category d) = Some [] \<longrightarrow> hero_subheading t = []) \<and>
              (category_description (data_category d) = None \<longrightarrow>
                 hero_subheading t = ''Actionable oral health guidance from pediatric dental specialists to keep smiles bright at every age.''))"
proof -
  have hero: "hero_subheading t = nullish (category_description (data_category d)) hero_fallback"
    if "OralHealthTipsPage formatDate db = Inr t" for t
    using that render_Inr(3) [of formatDate d t] by (simp add: page_of_data [OF assms])
  show ?thesis
    using metadata_Some [OF assms] hero
    by (simp add: nullish_def nullish_opt_def title_suffix_def hero_fallback_def)
qed

theorem empty_string_is_present_witness:
  "(case generateMetadata demo_blank of
      Inr m \<Rightarrow> meta_title m = [] \<and> meta_description m = []
    | Inl e \<Rightarrow> False) \<and>
   (case OralHealthTipsPage demo_formatDate demo_blank of
      Inr t \<Rightarrow> hero_subheading t = []
    | Inl e \<Rightarrow> False)"
proof -
  have "case getOralHealthTipsData demo_blank of
     Inr (Some d) \<Rightarrow>
       category_seoTitle (data_category d) = Some [] \<and>
       category_seoDescription (data_category d) = Some [] \<and>
       category_description (data_category d) = Some []
   | _ \<Rightarrow> False"
    by (simp add: demo_defs eval_defs)
  then obtain d where h: "getOralHealthTipsData demo_blank = Inr (Some d)"
    and o: "category_seoTitle (data_category d) = Some []"
      "category_seoDescription (data_category d) = Some []"
      "category_description (data_category d) = Some []"
    by (auto split: sum.splits option.splits)
  have "case OralHealthTipsPage demo_formatDate demo_blank of Inr t \<Rightarrow> True | Inl e \<Rightarrow> False"
    by (simp add: demo_defs eval_defs)
  then obtain t where ht: "OralHealthTipsPage demo_formatDate demo_blank = Inr t"
    by (auto split: sum.splits)
  from empty_string_is_present [OF h, of demo_formatDate] o ht show ?thesis by auto
qed

end
